theory Spec2Isabelle
  imports Complex_Main "HOL-Library.Finite_Map"
begin

section \<open>Data model of the metadata document\<close>

text \<open>
  JavaScript strings are modelled as \<^typ>\<open>string\<close>, holding the UTF-8 bytes of the text.
  The only string operations of the two routes are emptiness tests, equality (object keys),
  splitting at \<open>-\<close>, the ASCII class \<open>[\w-]\<close> and \<open>encodeURIComponent\<close>, all of which
  read the same on UTF-8 bytes as on UTF-16 code units.

  \<open>MetaInfo.folders\<close> is an object used as a dictionary: a finite map from folder name to
  entry. \<open>MetaInfo.folders[name]\<close>: one entry per folder. \<open>poster_path\<close> is \<open>string | null\<close>.
  \<open>vote_average\<close> is a JavaScript number that is only copied, never computed with.
\<close>

record folder_entry =
  tmdb_id :: int
  title :: string
  poster_path :: "string option"
  release_date :: string
  overview :: string
  vote_average :: real
  media_type :: string
  last_updated :: nat
  failed :: bool

text \<open>
  \<open>MetaInfo\<close>. A document parsed from the store may come without a \<open>folders\<close> object
  (the case \<open>!metaInfo.folders\<close> of the scan): that is \<open>folders = None\<close>. A \<open>folders\<close> of
  another type than object is not modelled.
\<close>

record metainfo =
  folders :: "(string, folder_entry) fmap option"
  last_refresh :: nat

text \<open>The value held by the store under the key \<open>video.metainfo\<close>: JSON text that parses to a
  document, or text on which \<open>JSON.parse\<close> throws.\<close>

datatype db_value = Doc metainfo | Unparseable

text \<open>The two fields of the admin configuration that the scan writes.\<close>

record openlist_stats =
  LastRefreshTime :: nat
  ResourceCount :: nat

text \<open>
  The persistent and process-wide state the routes share: the metadata cache (keyed by root
  path, \<open>getCachedMetaInfo\<close> / \<open>setCachedMetaInfo\<close> / \<open>invalidateMetaInfoCache\<close>), the
  database value \<open>video.metainfo\<close>, and the saved admin configuration.

  Modelled from the spec: the cache module is not part of the two routes. \<open>get(root)\<close> gives
  the cached document or nothing, \<open>set\<close> replaces the document of a root wholesale,
  \<open>invalidate\<close> removes it, and nothing expires. \<open>get\<close> hands out the document the cache
  holds, not a copy: what a route then assigns to that object is a change of the cached
  document (see \<open>save_and_complete\<close>).
\<close>

record world =
  cache :: "string \<rightharpoonup> metainfo"
  store :: "db_value option"
  saved_config :: "openlist_stats option"

section \<open>Collaborators of the scan\<close>

text \<open>One item of \<open>listResponse.data.content\<close>.\<close>

record list_item =
  name :: string
  is_dir :: bool

text \<open>
  Modelled from the spec: the response type of the listing gateway is declared outside the
  two routes. The gateway answers with a status code, its own message (the spec's
  ``gateway's error message'') and the entries; \<open>performScan\<close> reads \<open>listResponse.code\<close> and
  \<open>listResponse.data.content\<close>. \<open>ListResponse code message content\<close> is such an answer,
  \<open>ListThrows\<close> a rejected call.
\<close>

datatype list_outcome = ListThrows string | ListResponse int string "list_item list"

text \<open>\<open>searchResult.result\<close> of \<open>searchTMDB\<close>; \<open>title\<close>, \<open>name\<close>, \<open>release_date\<close> and
  \<open>first_air_date\<close> may be undefined.\<close>

record tmdb_result =
  r_id :: int
  r_title :: "string option"
  r_name :: "string option"
  r_poster_path :: "string option"
  r_release_date :: "string option"
  r_first_air_date :: "string option"
  r_overview :: string
  r_vote_average :: real
  r_media_type :: string

datatype search_outcome = SearchThrows | SearchResponse int "tmdb_result option"

datatype config_outcome = GetConfigThrows string | ConfigWithoutOpenList | ConfigOk

text \<open>
  The error that ends a scan, of which \<open>failScanTask\<close> receives the \<open>message\<close>: an error
  with a message text (thrown by a collaborator, or by the scan itself), or a \<open>TypeError\<close>
  of the runtime. \<open>list_fetch_failed\<close> is the text of the \<open>new Error('OpenList ...')\<close> that
  the scan throws on a listing status other than 200: \<open>OpenList\<close>, a space, and the UTF-8
  text of the six characters U+5217 U+8868 U+83B7 U+53D6 U+5931 U+8D25.
\<close>

datatype error = Error string | TypeError

definition list_fetch_failed :: string where
  "list_fetch_failed =
     ''OpenList '' @
     [CHR 0xE5, CHR 0x88, CHR 0x97, CHR 0xE8, CHR 0xA1, CHR 0xA8, CHR 0xE8, CHR 0x8E, CHR 0xB7,
      CHR 0xE5, CHR 0x8F, CHR 0x96, CHR 0xE5, CHR 0xA4, CHR 0xB1, CHR 0xE8, CHR 0xB4, CHR 0xA5]"

text \<open>
  What one run of \<open>performScan\<close> reads from outside: the outcome of every collaborator call
  and of every \<open>Date.now()\<close> whose value is kept. \<open>searchTMDB\<close> is called with the same key
  and proxy throughout a run, so it is a function of the folder name; a folder's entry is
  written at most once per run, so the time of that write is a function of the folder name
  too.
\<close>

record env =
  getGlobalValue_throws :: bool
  listDirectory :: list_outcome
  searchTMDB :: "string \<Rightarrow> search_outcome"
  now_entry :: "string \<Rightarrow> nat"
  now_refresh :: nat
  now_config :: nat
  setGlobalValue_throws :: "string option"
  getConfig :: config_outcome
  saveAdminConfig_throws :: "string option"

section \<open>Effects of the scan\<close>

record scan_result =
  total :: nat
  new :: nat
  existing :: int
  errors :: nat

text \<open>The calls a run makes that change something outside it, in order: the scan task
  registry, the catalog, the 300 ms timer, the store, the cache and the admin configuration.\<close>

datatype call =
    UpdateScanTaskProgress nat nat "string option"
  | SearchTMDB string
  | Sleep nat
  | SetGlobalValue metainfo
  | InvalidateMetaInfoCache string
  | SetCachedMetaInfo string metainfo
  | SaveAdminConfig openlist_stats
  | CompleteScanTask scan_result
  | FailScanTask error

section \<open>The folder loop\<close>

text \<open>\<open>a || b\<close> on an optional string: undefined and the empty string are falsy.\<close>

definition js_or :: "string option \<Rightarrow> string \<Rightarrow> string" where
  "js_or a b = (case a of None \<Rightarrow> b | Some s \<Rightarrow> if s = [] then b else s)"

text \<open>
  \<open>metaInfo.folders\<close> is a plain object (\<open>{}\<close> or the result of \<open>JSON.parse\<close>), so
  \<open>metaInfo.folders[folder.name]\<close> reads an own entry, which is an object and truthy, or
  else a member inherited from \<open>Object.prototype\<close>, which is a function or an object and
  truthy as well.
\<close>

definition object_prototype_keys :: "string list" where
  "object_prototype_keys =
     [''constructor'', ''__defineGetter__'', ''__defineSetter__'', ''hasOwnProperty'',
      ''__lookupGetter__'', ''__lookupSetter__'', ''isPrototypeOf'',
      ''propertyIsEnumerable'', ''toString'', ''valueOf'', ''__proto__'',
      ''toLocaleString'']"

definition truthy_member :: "(string, folder_entry) fmap \<Rightarrow> string \<Rightarrow> bool" where
  "truthy_member m n = (fmlookup m n \<noteq> None \<or> n \<in> set object_prototype_keys)"

text \<open>The entry written for a match, and the one written for a failed folder.\<close>

definition resolved_entry :: "tmdb_result \<Rightarrow> string \<Rightarrow> nat \<Rightarrow> folder_entry" where
  "resolved_entry r n t =
     \<lparr>tmdb_id = r_id r,
      title = js_or (r_title r) (js_or (r_name r) n),
      poster_path = r_poster_path r,
      release_date = js_or (r_release_date r) (js_or (r_first_air_date r) ''''),
      overview = r_overview r,
      vote_average = r_vote_average r,
      media_type = r_media_type r,
      last_updated = t,
      failed = False\<rparr>"

definition sentinel_entry :: "string \<Rightarrow> nat \<Rightarrow> folder_entry" where
  "sentinel_entry n t =
     \<lparr>tmdb_id = 0, title = n, poster_path = None, release_date = '''', overview = '''',
      vote_average = 0, media_type = ''movie'', last_updated = t, failed = True\<rparr>"

record loop_state =
  entries :: "(string, folder_entry) fmap"
  newCount :: nat
  errorCount :: nat
  calls :: "call list"

text \<open>\<open>searchResult.code === 200 && searchResult.result\<close>.\<close>

fun matched :: "search_outcome \<Rightarrow> tmdb_result option" where
  "matched SearchThrows = None"
| "matched (SearchResponse code res) = (if code = 200 then res else None)"

text \<open>
  The \<open>try\<close> block of the loop body for a folder that was not skipped. The timer is awaited
  at the end of the \<open>try\<close> block, after either branch of the \<open>if\<close>; the \<open>catch\<close> block
  writes the same entry as the \<open>else\<close> branch and has no timer.
\<close>

definition search_folder :: "env \<Rightarrow> string \<Rightarrow> loop_state \<Rightarrow> loop_state" where
  "search_folder e n s =
     (case searchTMDB e n of
        SearchThrows \<Rightarrow>
          s\<lparr>entries := fmupd n (sentinel_entry n (now_entry e n)) (entries s),
            errorCount := errorCount s + 1,
            calls := calls s @ [SearchTMDB n]\<rparr>
      | SearchResponse code res \<Rightarrow>
          (case matched (SearchResponse code res) of
             Some r \<Rightarrow>
               s\<lparr>entries := fmupd n (resolved_entry r n (now_entry e n)) (entries s),
                 newCount := newCount s + 1,
                 calls := calls s @ [SearchTMDB n, Sleep 300]\<rparr>
           | None \<Rightarrow>
               s\<lparr>entries := fmupd n (sentinel_entry n (now_entry e n)) (entries s),
                 errorCount := errorCount s + 1,
                 calls := calls s @ [SearchTMDB n, Sleep 300]\<rparr>))"

text \<open>\<open>for (let i = 0; i < folders.length; i++)\<close>, on the folders from index \<open>i\<close> on.\<close>

fun scan_folders :: "env \<Rightarrow> nat \<Rightarrow> nat \<Rightarrow> list_item list \<Rightarrow> loop_state \<Rightarrow> loop_state" where
  "scan_folders e len i [] s = s"
| "scan_folders e len i (folder # rest) s =
     (let s1 = s\<lparr>calls := calls s @ [UpdateScanTaskProgress (i + 1) len (Some (name folder))]\<rparr>
      in if truthy_member (entries s1) (name folder)
         then scan_folders e len (i + 1) rest s1
         else scan_folders e len (i + 1) rest (search_folder e (name folder) s1))"

section \<open>performScan\<close>

text \<open>
  Step 1: the cached document, else the stored one. On a cache hit the log line evaluates
  \<open>Object.keys(existingMetaInfo.folders)\<close>, a \<open>TypeError\<close> when \<open>folders\<close> is missing. On a
  miss, a failing read and a failing \<open>JSON.parse\<close> are caught and leave no document.
\<close>

definition read_existing :: "env \<Rightarrow> string \<Rightarrow> world \<Rightarrow> error + metainfo option" where
  "read_existing e rootPath w =
     (case cache w rootPath of
        Some m \<Rightarrow> (if folders m = None then Inl TypeError else Inr (Some m))
      | None \<Rightarrow>
          (if getGlobalValue_throws e then Inr None
           else case store w of
                  None \<Rightarrow> Inr None
                | Some Unparseable \<Rightarrow> Inr None
                | Some (Doc m) \<Rightarrow> Inr (Some m)))"

text \<open>\<open>existingMetaInfo || {folders: {}, last_refresh: Date.now()}\<close>, then the reset of a
  missing \<open>folders\<close>. Only \<open>folders\<close> is kept: \<open>last_refresh\<close> is assigned in step 4 before
  the document is read again.\<close>

definition initial_entries :: "metainfo option \<Rightarrow> (string, folder_entry) fmap" where
  "initial_entries existingMetaInfo =
     (case existingMetaInfo of
        None \<Rightarrow> fmempty
      | Some m \<Rightarrow> (case folders m of None \<Rightarrow> fmempty | Some f \<Rightarrow> f))"

text \<open>\<open>Object.keys(metaInfo.folders).length\<close>.\<close>

definition key_count :: "(string, folder_entry) fmap \<Rightarrow> nat" where
  "key_count m = fcard (fmdom m)"

record run =
  final :: world
  effects :: "call list"
  thrown :: "error option"

text \<open>
  \<open>metaInfo\<close> is \<open>existingMetaInfo\<close> when step 1 found a document, and step 1 takes it from
  the cache when the cache has one for the root. It is then the cached object itself, so
  the entries assigned in the loop and the \<open>last_refresh\<close> assigned in step 4 are changes of
  the cached document, made before the store is written. Otherwise \<open>metaInfo\<close> is a new
  object (parsed from the store, or empty), which only \<open>setCachedMetaInfo\<close> puts into the
  cache.
\<close>

definition assign_cached :: "string \<Rightarrow> metainfo \<Rightarrow> world \<Rightarrow> world" where
  "assign_cached rootPath metaInfo w =
     (case cache w rootPath of
        None \<Rightarrow> w
      | Some m \<Rightarrow> w\<lparr>cache := (cache w)(rootPath \<mapsto> metaInfo)\<rparr>)"

text \<open>Steps 4 to 6 and the completion, after the loop has ended in state \<open>s\<close>. The read
  that verifies the save only logs, inside a \<open>try\<close> of its own, and is left out. When the
  store write throws, the run ends with the assignments to \<open>metaInfo\<close> made.\<close>

definition save_and_complete :: "env \<Rightarrow> string \<Rightarrow> world \<Rightarrow> nat \<Rightarrow> loop_state \<Rightarrow> run" where
  "save_and_complete e rootPath w len s =
     (let metaInfo = \<lparr>folders = Some (entries s), last_refresh = now_refresh e\<rparr>
      in case setGlobalValue_throws e of
           Some msg \<Rightarrow>
             \<lparr>final = assign_cached rootPath metaInfo w, effects = calls s,
              thrown = Some (Error msg)\<rparr>
         | None \<Rightarrow>
             (let w1 = w\<lparr>store := Some (Doc metaInfo)\<rparr>;
                  w2 = w1\<lparr>cache := (cache w1)(rootPath := None)\<rparr>;
                  w3 = w2\<lparr>cache := (cache w2)(rootPath \<mapsto> metaInfo)\<rparr>;
                  c3 = calls s @ [SetGlobalValue metaInfo, InvalidateMetaInfoCache rootPath,
                                  SetCachedMetaInfo rootPath metaInfo]
              in case getConfig e of
                   GetConfigThrows msg \<Rightarrow> \<lparr>final = w3, effects = c3, thrown = Some (Error msg)\<rparr>
                 | ConfigWithoutOpenList \<Rightarrow> \<lparr>final = w3, effects = c3, thrown = Some TypeError\<rparr>
                 | ConfigOk \<Rightarrow>
                     (let stats = \<lparr>LastRefreshTime = now_config e,
                                   ResourceCount = key_count (entries s)\<rparr>
                      in case saveAdminConfig_throws e of
                           Some msg \<Rightarrow>
                             \<lparr>final = w3, effects = c3, thrown = Some (Error msg)\<rparr>
                         | None \<Rightarrow>
                             \<lparr>final = w3\<lparr>saved_config := Some stats\<rparr>,
                              effects = c3 @ [SaveAdminConfig stats,
                                CompleteScanTask
                                  \<lparr>total = len, new = newCount s,
                                   existing = int (key_count (entries s)) - int (newCount s),
                                   errors = errorCount s\<rparr>],
                              thrown = None\<rparr>)))"

text \<open>The body of the outer \<open>try\<close>, after the first progress update.\<close>

definition scan_body :: "env \<Rightarrow> string \<Rightarrow> world \<Rightarrow> run" where
  "scan_body e rootPath w =
     (case read_existing e rootPath w of
        Inl err \<Rightarrow> \<lparr>final = w, effects = [], thrown = Some err\<rparr>
      | Inr existingMetaInfo \<Rightarrow>
          (case listDirectory e of
             ListThrows msg \<Rightarrow> \<lparr>final = w, effects = [], thrown = Some (Error msg)\<rparr>
           | ListResponse code message content \<Rightarrow>
               if code \<noteq> 200 then \<lparr>final = w, effects = [], thrown = Some (Error list_fetch_failed)\<rparr>
               else
                 (let fs = filter is_dir content;
                      s0 = \<lparr>entries = initial_entries existingMetaInfo, newCount = 0,
                            errorCount = 0,
                            calls = [UpdateScanTaskProgress 0 (length fs) None]\<rparr>
                  in save_and_complete e rootPath w (length fs)
                       (scan_folders e (length fs) 0 fs s0))))"

text \<open>\<open>performScan\<close>: the progress update before the \<open>try\<close>, the body, and the \<open>catch\<close> that
  reports the failure to the registry and throws the error again.\<close>

definition performScan :: "env \<Rightarrow> string \<Rightarrow> world \<Rightarrow> run" where
  "performScan e rootPath w =
     (let r = scan_body e rootPath w
      in case thrown r of
           None \<Rightarrow> r\<lparr>effects := UpdateScanTaskProgress 0 0 None # effects r\<rparr>
         | Some err \<Rightarrow>
             r\<lparr>effects := UpdateScanTaskProgress 0 0 None # effects r @ [FailScanTask err]\<rparr>)"

section \<open>The detail route\<close>

text \<open>\<open>!x\<close> on an optional string.\<close>

definition falsy :: "string option \<Rightarrow> bool" where
  "falsy a = (case a of None \<Rightarrow> True | Some s \<Rightarrow> s = [])"

text \<open>The query parameters and the identity read from the cookie
  (\<open>authInfo.username\<close>, absent when there is no \<open>authInfo\<close>).\<close>

record request =
  username :: "string option"
  id_param :: "string option"
  source_param :: "string option"

record openlist_config =
  URL :: "string option"
  Token :: "string option"
  RootPath :: "string option"

record episode =
  fileName :: string
  ep_title :: "string option"
  ep_number :: nat

text \<open>The JSON body of \<open>/api/openlist/detail\<close>.\<close>

record openlist_data =
  od_success :: bool
  od_error :: "string option"
  od_folder :: string
  od_episodes :: "episode list"

datatype fetch_outcome = FetchThrows string | FetchNotOk | FetchJson openlist_data

text \<open>The standard detail format, built by the OpenList branch and returned by
  \<open>getDetailFromApi\<close>.\<close>

record detail_result =
  d_source :: string
  d_source_name :: string
  d_id :: string
  d_title :: string
  d_poster :: string
  d_year :: string
  d_douban_id :: nat
  d_desc :: string
  d_episodes :: "string list"
  d_episodes_titles :: "string list"

text \<open>The \<open>error\<close> texts of the route: seven fixed texts and the message of a caught
  error.\<close>

datatype detail_error =
    Unauthorized
  | MissingParameters
  | InvalidIdFormat
  | InvalidApiSource
  | OpenListNotConfigured
  | OpenListDetailFailed
  | VideoDetailFailed
  | Message string

datatype body = ErrorBody detail_error | DetailBody detail_result

text \<open>A response: its status, its body, and the cache time of its \<open>Cache-Control\<close> headers
  when it has them.\<close>

record response =
  status :: nat
  body :: body
  max_age :: "nat option"

text \<open>What one detail request reads from outside. An API site is known by its \<open>key\<close>.\<close>

record detail_env =
  d_getConfig :: "string + openlist_config option"
  d_getGlobalValue_throws :: bool
  fetch_openlist_detail :: "string \<Rightarrow> fetch_outcome"
  getTMDBImageUrl :: "string \<Rightarrow> string"
  getAvailableApiSites :: "string \<Rightarrow> string + string list"
  getDetailFromApi :: "string \<Rightarrow> string \<Rightarrow> string + detail_result"
  getCacheTime :: nat

text \<open>\<open>encodeURIComponent\<close> on UTF-8 bytes: the unreserved characters stay, every other
  byte is written as \<open>%XX\<close>.\<close>

definition alphanumeric :: "char \<Rightarrow> bool" where
  "alphanumeric c =
     (c \<in> set ''ABCDEFGHIJKLMNOPQRSTUVWXYZabcdefghijklmnopqrstuvwxyz0123456789'')"

definition hex_digit :: "nat \<Rightarrow> char" where
  "hex_digit n = ''0123456789ABCDEF'' ! (n mod 16)"

definition encode_byte :: "char \<Rightarrow> string" where
  "encode_byte c =
     (if alphanumeric c \<or> c \<in> set ''-_.!~*()'' \<or> c = CHR 0x27
      then [c]
      else [CHR ''%'', hex_digit (of_char c div 16), hex_digit (of_char c mod 16)])"

definition encodeURIComponent :: "string \<Rightarrow> string" where
  "encodeURIComponent s = concat (map encode_byte s)"

text \<open>A number in a template literal.\<close>

fun show_nat :: "nat \<Rightarrow> string" where
  "show_nat n =
     (if n < 10 then [hex_digit n] else show_nat (n div 10) @ [hex_digit (n mod 10)])"

text \<open>The source name of the private library and the two characters around the episode
  number of a default episode title, as UTF-8.\<close>

definition private_library :: string where
  "private_library =
     [CHR 0xE7, CHR 0xA7, CHR 0x81, CHR 0xE4, CHR 0xBA, CHR 0xBA,
      CHR 0xE5, CHR 0xBD, CHR 0xB1, CHR 0xE5, CHR 0xBA, CHR 0x93]"

definition default_episode_title :: "nat \<Rightarrow> string" where
  "default_episode_title n =
     [CHR 0xE7, CHR 0xAC, CHR 0xAC] @ show_nat n @ [CHR 0xE9, CHR 0x9B, CHR 0x86]"

text \<open>\<open>/^[\w-]+$/.test(id)\<close>.\<close>

definition valid_id :: "string \<Rightarrow> bool" where
  "valid_id s =
     (s \<noteq> [] \<and> list_all (\<lambda>c. alphanumeric c \<or> c = CHR ''_'' \<or> c = CHR ''-'') s)"

text \<open>
  Step 1 of the OpenList branch: the cached document, else the stored one, which is then
  cached. Every error is caught and leaves \<open>metaInfo\<close> null.
\<close>

definition read_metainfo :: "detail_env \<Rightarrow> string \<Rightarrow> world \<Rightarrow> metainfo option \<times> world" where
  "read_metainfo e rootPath w =
     (case cache w rootPath of
        Some m \<Rightarrow> (Some m, w)
      | None \<Rightarrow>
          (if d_getGlobalValue_throws e then (None, w)
           else case store w of
                  None \<Rightarrow> (None, w)
                | Some Unparseable \<Rightarrow> (None, w)
                | Some (Doc m) \<Rightarrow> (Some m, w\<lparr>cache := (cache w)(rootPath \<mapsto> m)\<rparr>)))"

text \<open>
  \<open>metaInfo?.folders?.[id]\<close>. A member inherited from \<open>Object.prototype\<close> has none of the
  four fields read below, so it reads like a missing entry.
\<close>

definition folder_meta :: "metainfo option \<Rightarrow> string \<Rightarrow> folder_entry option" where
  "folder_meta metaInfo i =
     (case metaInfo of
        None \<Rightarrow> None
      | Some m \<Rightarrow> (case folders m of None \<Rightarrow> None | Some f \<Rightarrow> fmlookup f i))"

text \<open>Step 3: the conversion to the standard format.\<close>

definition to_detail :: "detail_env \<Rightarrow> folder_entry option \<Rightarrow> openlist_data \<Rightarrow> detail_result" where
  "to_detail e folderMeta openlistData =
     \<lparr>d_source = ''openlist'',
      d_source_name = private_library,
      d_id = od_folder openlistData,
      d_title = js_or (map_option title folderMeta) (od_folder openlistData),
      d_poster =
        (case folderMeta of
           None \<Rightarrow> []
         | Some m \<Rightarrow>
             (case poster_path m of
                None \<Rightarrow> []
              | Some p \<Rightarrow> if p = [] then [] else getTMDBImageUrl e p)),
      d_year =
        (case folderMeta of
           None \<Rightarrow> []
         | Some m \<Rightarrow>
             if release_date m = [] then []
             else takeWhile (\<lambda>c. c \<noteq> CHR ''-'') (release_date m)),
      d_douban_id = 0,
      d_desc = js_or (map_option overview folderMeta) [],
      d_episodes =
        map (\<lambda>ep. ''/api/openlist/play?folder='' @ encodeURIComponent (od_folder openlistData)
                   @ ''&fileName='' @ encodeURIComponent (fileName ep))
            (od_episodes openlistData),
      d_episodes_titles =
        map (\<lambda>ep. js_or (ep_title ep) (default_episode_title (ep_number ep)))
            (od_episodes openlistData)\<rparr>"

definition json :: "nat \<Rightarrow> body \<Rightarrow> response" where
  "json st b = \<lparr>status = st, body = b, max_age = None\<rparr>"

text \<open>The branch for the source \<open>openlist\<close>: its \<open>try\<close> block, every error of which
  becomes a response of status 500.\<close>

definition openlist_branch :: "detail_env \<Rightarrow> string \<Rightarrow> world \<Rightarrow> response \<times> world" where
  "openlist_branch e i w =
     (case d_getConfig e of
        Inl msg \<Rightarrow> (json 500 (ErrorBody (Message msg)), w)
      | Inr None \<Rightarrow> (json 500 (ErrorBody OpenListNotConfigured), w)
      | Inr (Some openListConfig) \<Rightarrow>
          if falsy (URL openListConfig) \<or> falsy (Token openListConfig)
          then (json 500 (ErrorBody OpenListNotConfigured), w)
          else
            (let rootPath = js_or (RootPath openListConfig) ''/'';
                 (metaInfo, w1) = read_metainfo e rootPath w
             in case fetch_openlist_detail e i of
                  FetchThrows msg \<Rightarrow> (json 500 (ErrorBody (Message msg)), w1)
                | FetchNotOk \<Rightarrow> (json 500 (ErrorBody OpenListDetailFailed), w1)
                | FetchJson openlistData \<Rightarrow>
                    if \<not> od_success openlistData
                    then (json 500 (ErrorBody
                            (case od_error openlistData of
                               None \<Rightarrow> VideoDetailFailed
                             | Some msg \<Rightarrow> if msg = [] then VideoDetailFailed else Message msg)),
                          w1)
                    else (json 200 (DetailBody
                            (to_detail e (folder_meta metaInfo i) openlistData)), w1)))"

text \<open>The rest of the handler, for every other source: the check of the id, then the
  \<open>try\<close> block.\<close>

definition api_branch :: "detail_env \<Rightarrow> string \<Rightarrow> string \<Rightarrow> string \<Rightarrow> response" where
  "api_branch e user sourceCode i =
     (if \<not> valid_id i then json 400 (ErrorBody InvalidIdFormat)
      else case getAvailableApiSites e user of
             Inl msg \<Rightarrow> json 500 (ErrorBody (Message msg))
           | Inr apiSites \<Rightarrow>
               (case find (\<lambda>site. site = sourceCode) apiSites of
                  None \<Rightarrow> json 400 (ErrorBody InvalidApiSource)
                | Some apiSite \<Rightarrow>
                    (case getDetailFromApi e apiSite i of
                       Inl msg \<Rightarrow> json 500 (ErrorBody (Message msg))
                     | Inr result \<Rightarrow>
                         \<lparr>status = 200, body = DetailBody result,
                          max_age = Some (getCacheTime e)\<rparr>)))"

text \<open>\<open>GET /api/detail\<close>.\<close>

definition GET :: "detail_env \<Rightarrow> request \<Rightarrow> world \<Rightarrow> response \<times> world" where
  "GET e request w =
     (case username request of
        None \<Rightarrow> (json 401 (ErrorBody Unauthorized), w)
      | Some user \<Rightarrow>
          if user = [] then (json 401 (ErrorBody Unauthorized), w)
          else
            (case id_param request of
               None \<Rightarrow> (json 400 (ErrorBody MissingParameters), w)
             | Some i \<Rightarrow>
                 (case source_param request of
                    None \<Rightarrow> (json 400 (ErrorBody MissingParameters), w)
                  | Some sourceCode \<Rightarrow>
                      if i = [] \<or> sourceCode = []
                      then (json 400 (ErrorBody MissingParameters), w)
                      else if sourceCode = ''openlist'' then openlist_branch e i w
                      else (api_branch e user sourceCode i, w))))"

section \<open>Observations on a run\<close>

text \<open>The \<open>processed\<close> arguments of the progress updates of a call sequence, the names
  passed to \<open>searchTMDB\<close>, and the results passed to \<open>completeScanTask\<close>, each in call
  order.\<close>

fun progress_of :: "call \<Rightarrow> nat list" where
  "progress_of (UpdateScanTaskProgress processed len item) = [processed]"
| "progress_of _ = []"

definition processed_values :: "call list \<Rightarrow> nat list" where
  "processed_values cs = concat (map progress_of cs)"

fun search_of :: "call \<Rightarrow> string list" where
  "search_of (SearchTMDB n) = [n]"
| "search_of _ = []"

definition searched :: "call list \<Rightarrow> string list" where
  "searched cs = concat (map search_of cs)"

fun completion_of :: "call \<Rightarrow> scan_result list" where
  "completion_of (CompleteScanTask r) = [r]"
| "completion_of _ = []"

definition completions :: "call list \<Rightarrow> scan_result list" where
  "completions cs = concat (map completion_of cs)"

text \<open>The entry the loop writes for a folder it looks up.\<close>

definition written_entry :: "env \<Rightarrow> string \<Rightarrow> folder_entry" where
  "written_entry e n =
     (case matched (searchTMDB e n) of
        Some r \<Rightarrow> resolved_entry r n (now_entry e n)
      | None \<Rightarrow> sentinel_entry n (now_entry e n))"

text \<open>The folder names of a listing, and the document the store holds.\<close>

definition folder_names :: "list_item list \<Rightarrow> string set" where
  "folder_names content = name ` set (filter is_dir content)"


text \<open>The state in which the loop of a run ends, given the document found in step 1 and
  the listing.\<close>

definition loop_result :: "env \<Rightarrow> metainfo option \<Rightarrow> list_item list \<Rightarrow> loop_state" where
  "loop_result e prior content =
     scan_folders e (length (filter is_dir content)) 0 (filter is_dir content)
       \<lparr>entries = initial_entries prior, newCount = 0, errorCount = 0,
        calls = [UpdateScanTaskProgress 0 (length (filter is_dir content)) None]\<rparr>"

section \<open>Scenarios\<close>

text \<open>The end-to-end scenario: an empty cache and store, and a root with the folders
  \<open>Inception (2010)\<close> and \<open>Unknown Junk Folder\<close>, the first of which the catalog matches
  (the title is the UTF-8 text of the four characters U+76D7 U+68A6 U+7A7A U+95F4).\<close>

definition inception_title :: string where
  "inception_title =
     [CHR 0xE7, CHR 0x9B, CHR 0x97, CHR 0xE6, CHR 0xA2, CHR 0xA6,
      CHR 0xE7, CHR 0xA9, CHR 0xBA, CHR 0xE9, CHR 0x97, CHR 0xB4]"

definition inception :: tmdb_result where
  "inception =
     \<lparr>r_id = 27205, r_title = Some inception_title, r_name = None,
      r_poster_path = Some ''/inception.jpg'', r_release_date = Some ''2010-07-15'',
      r_first_air_date = None, r_overview = ''A thief who steals secrets'',
      r_vote_average = 8, r_media_type = ''movie''\<rparr>"

definition scenario_env :: env where
  "scenario_env =
     \<lparr>getGlobalValue_throws = False,
      listDirectory = ListResponse 200 ''success''
        [\<lparr>name = ''Inception (2010)'', is_dir = True\<rparr>,
         \<lparr>name = ''Unknown Junk Folder'', is_dir = True\<rparr>],
      searchTMDB = (\<lambda>q. if q = ''Inception (2010)'' then SearchResponse 200 (Some inception)
                          else SearchResponse 404 None),
      now_entry = (\<lambda>q. 1001), now_refresh = 1002, now_config = 1003,
      setGlobalValue_throws = None, getConfig = ConfigOk, saveAdminConfig_throws = None\<rparr>"

definition empty_world :: world where
  "empty_world = \<lparr>cache = Map.empty, store = None, saved_config = None\<rparr>"

definition first_run :: run where
  "first_run = performScan scenario_env ''/'' empty_world"



text \<open>A root with a folder named \<open>constructor\<close>, which the catalog would match, and a
  folder that it does not match.\<close>

definition isolation_env :: env where
  "isolation_env =
     scenario_env\<lparr>listDirectory := ListResponse 200 ''success''
        [\<lparr>name = ''constructor'', is_dir = True\<rparr>, \<lparr>name = ''Junk'', is_dir = True\<rparr>],
      searchTMDB := (\<lambda>q. if q = ''constructor'' then SearchResponse 200 (Some inception)
                           else SearchResponse 200 None)\<rparr>"

text \<open>A root with one folder, for which the catalog call throws.\<close>

definition throwing_env :: env where
  "throwing_env =
     scenario_env\<lparr>listDirectory := ListResponse 200 ''success''
        [\<lparr>name = ''A'', is_dir = True\<rparr>],
      searchTMDB := (\<lambda>q. SearchThrows)\<rparr>"

text \<open>The listing answers with status 500 and a message of its own; the admin
  configuration cannot be saved.\<close>

definition listing_failure_env :: env where
  "listing_failure_env =
     scenario_env\<lparr>listDirectory := ListResponse 500 ''storage not found'' []\<rparr>"


text \<open>A detail request for a folder whose name has a space and a slash, with a configured
  OpenList and nothing cached or stored.\<close>

definition detail_request :: request where
  "detail_request =
     \<lparr>username = Some ''alice'', id_param = Some ''My Show/S 1'',
      source_param = Some ''openlist''\<rparr>"

definition detail_scenario :: detail_env where
  "detail_scenario =
     \<lparr>d_getConfig = Inr (Some \<lparr>URL = Some ''http://files'', Token = Some ''t'',
                                 RootPath = None\<rparr>),
      d_getGlobalValue_throws = False,
      fetch_openlist_detail = (\<lambda>i. FetchJson
         \<lparr>od_success = True, od_error = None, od_folder = i,
          od_episodes = [\<lparr>fileName = ''e 1.mkv'', ep_title = None, ep_number = 12\<rparr>]\<rparr>),
      getTMDBImageUrl = (\<lambda>p. ''https://image.tmdb.org/t/p/w500'' @ p),
      getAvailableApiSites = (\<lambda>u. Inr [''site1'']),
      getDetailFromApi = (\<lambda>site i. Inl ''unreachable''),
      getCacheTime = 7200\<rparr>"

text \<open>The runs of the last two scenarios on an empty cache and store.\<close>

definition isolation_run :: run where
  "isolation_run = performScan isolation_env ''/'' empty_world"

definition throwing_run :: run where
  "throwing_run = performScan throwing_env ''/'' empty_world"

section \<open>The folder loop: entries, counters and calls\<close>

lemma search_folder_entries:
  "entries (search_folder e n s) = fmupd n (written_entry e n) (entries s)"
  by (cases "searchTMDB e n") (auto simp: search_folder_def written_entry_def split: option.splits)


lemma search_folder_errorCount:
  "errorCount (search_folder e n s) = errorCount s + (if matched (searchTMDB e n) = None then 1 else 0)"
  by (cases "searchTMDB e n") (auto simp: search_folder_def split: option.splits)

lemma search_folder_calls:
  "calls (search_folder e n s) =
     calls s @ SearchTMDB n # (if searchTMDB e n = SearchThrows then [] else [Sleep 300])"
  by (cases "searchTMDB e n") (auto simp: search_folder_def split: option.splits)

lemma truthy_member_fmupd:
  "truthy_member (fmupd x v m) n = (n = x \<or> truthy_member m n)"
  by (auto simp: truthy_member_def)

lemma scan_folders_entries:
  "fmlookup (entries (scan_folders e len i fs s)) n =
     (if n \<in> name ` set fs \<and> \<not> truthy_member (entries s) n then Some (written_entry e n)
      else fmlookup (entries s) n)"
proof (induction fs arbitrary: i s)
  case Nil
  show ?case by simp
next
  case (Cons folder rest)
  show ?case
    by (auto simp: Let_def Cons.IH search_folder_entries truthy_member_fmupd)
qed

lemma processed_values_append [simp]:
  "processed_values (xs @ ys) = processed_values xs @ processed_values ys"
  by (simp add: processed_values_def)

lemma processed_values_Cons:
  "processed_values (c # cs) = progress_of c @ processed_values cs"
  by (simp add: processed_values_def)

lemma processed_values_Nil [simp]: "processed_values [] = []"
  by (simp add: processed_values_def)

lemma search_folder_processed:
  "processed_values (calls (search_folder e n s)) = processed_values (calls s)"
  by (simp add: search_folder_calls processed_values_Cons)

lemma scan_folders_processed:
  "processed_values (calls (scan_folders e len i fs s)) =
     processed_values (calls s) @ [Suc i..<Suc (i + length fs)]"
proof (induction fs arbitrary: i s)
  case Nil
  show ?case by simp
next
  case (Cons folder rest)
  have "processed_values (calls (scan_folders e len i (folder # rest) s)) =
          processed_values (calls s) @ ([Suc i] @ [Suc (Suc i)..<Suc (Suc i + length rest)])"
    by (simp add: Let_def Cons.IH search_folder_processed processed_values_Cons del: upt_Suc)
  also have "[Suc i] @ [Suc (Suc i)..<Suc (Suc i + length rest)] =
               [Suc i..<Suc (i + length (folder # rest))]"
    by (simp add: upt_conv_Cons del: upt_Suc)
  finally show ?case .
qed

lemma searched_append [simp]: "searched (xs @ ys) = searched xs @ searched ys"
  by (simp add: searched_def)


lemma searched_Nil [simp]: "searched [] = []"
  by (simp add: searched_def)



lemma count_step:
  assumes "\<not> T x" and that: "finite A"
  shows "card {n \<in> insert x A. \<not> T n \<and> P n} =
           (if P x then 1 else 0) + card {n \<in> A. \<not> (n = x \<or> T n) \<and> P n}"
proof -
  let ?B = "{n \<in> A. \<not> (n = x \<or> T n) \<and> P n}"
  have "{n \<in> insert x A. \<not> T n \<and> P n} = (if P x then insert x ?B else ?B)"
    using assms by auto
  moreover have "finite ?B" "x \<notin> ?B" using that by auto
  ultimately show ?thesis by simp
qed

lemma count_skip:
  assumes "T x"
  shows "{n \<in> insert x A. \<not> T n \<and> P n} = {n \<in> A. \<not> T n \<and> P n}"
  using assms by auto


lemma scan_folders_errorCount:
  "errorCount (scan_folders e len i fs s) =
     errorCount s + card {n \<in> name ` set fs. \<not> truthy_member (entries s) n \<and> matched (searchTMDB e n) = None}"
proof (induction fs arbitrary: i s)
  case Nil
  show ?case by simp
next
  case (Cons folder rest)
  define P where "P n = (matched (searchTMDB e n) = None)" for n
  define T where "T = truthy_member (entries s)"
  define x where "x = name folder"
  define A where "A = name ` set rest"
  have fin: "finite A" by (simp add: A_def)
  have set_eq: "name ` set (folder # rest) = insert x A" by (simp add: x_def A_def)
  show ?case
  proof (cases "T x")
    case True
    have "errorCount (scan_folders e len i (folder # rest) s) = errorCount s + card {n \<in> A. \<not> T n \<and> P n}"
      using True by (simp add: Let_def Cons.IH T_def x_def A_def P_def)
    also have "{n \<in> A. \<not> T n \<and> P n} = {n \<in> insert x A. \<not> T n \<and> P n}"
      using True count_skip [of T x A P] by simp
    finally show ?thesis unfolding set_eq T_def P_def .
  next
    case False
    have "errorCount (scan_folders e len i (folder # rest) s) =
            errorCount s + ((if P x then 1 else 0) + card {n \<in> A. \<not> (n = x \<or> T n) \<and> P n})"
      using False
      by (simp add: Let_def Cons.IH search_folder_entries search_folder_errorCount
          truthy_member_fmupd T_def x_def A_def P_def)
    also have "(if P x then 1 else 0) + card {n \<in> A. \<not> (n = x \<or> T n) \<and> P n} =
                 card {n \<in> insert x A. \<not> T n \<and> P n}"
      using False fin count_step [of T x A P] by simp
    finally show ?thesis unfolding set_eq T_def P_def .
  qed
qed

section \<open>The calls of a whole run\<close>

lemma completions_append [simp]: "completions (xs @ ys) = completions xs @ completions ys"
  by (simp add: completions_def)

lemma completions_Cons: "completions (c # cs) = completion_of c @ completions cs"
  by (simp add: completions_def)

lemma completions_Nil [simp]: "completions [] = []"
  by (simp add: completions_def)

lemma save_and_complete_processed:
  "processed_values (effects (save_and_complete e rootPath w len s)) = processed_values (calls s)"
  by (simp add: save_and_complete_def Let_def processed_values_Cons
      split: option.splits config_outcome.splits)


lemma scan_body_processed:
  "processed_values (effects (scan_body e rootPath w)) =
     (case read_existing e rootPath w of
        Inl err \<Rightarrow> []
      | Inr prior \<Rightarrow>
          (case listDirectory e of
             ListThrows msg \<Rightarrow> []
           | ListResponse code msg content \<Rightarrow>
               if code = 200 then [0..<Suc (length (filter is_dir content))] else []))"
  by (simp add: scan_body_def Let_def save_and_complete_processed scan_folders_processed
      processed_values_Cons upt_conv_Cons
      split: sum.splits list_outcome.splits del: upt_Suc)

lemma performScan_processed:
  "processed_values (effects (performScan e rootPath w)) =
     0 # processed_values (effects (scan_body e rootPath w))"
  by (simp add: performScan_def Let_def processed_values_Cons split: option.splits)

lemma CompleteScanTask_in_set: "CompleteScanTask r \<in> set cs \<longleftrightarrow> r \<in> set (completions cs)"
proof (induction cs)
  case Nil
  show ?case by simp
next
  case (Cons c cs)
  then show ?case by (cases c) (auto simp: completions_Cons)
qed

lemma search_folder_completions:
  "completions (calls (search_folder e n s)) = completions (calls s)"
  by (simp add: search_folder_calls completions_Cons)

lemma scan_folders_completions:
  "completions (calls (scan_folders e len i fs s)) = completions (calls s)"
  by (induction fs arbitrary: i s) (simp_all add: Let_def search_folder_completions completions_Cons)

lemma save_and_complete_completions:
  "completions (effects (save_and_complete e rootPath w len s)) =
     completions (calls s) @
     (if thrown (save_and_complete e rootPath w len s) = None
      then [\<lparr>total = len, new = newCount s,
             existing = int (key_count (entries s)) - int (newCount s),
             errors = errorCount s\<rparr>]
      else [])"
  by (simp add: save_and_complete_def Let_def completions_Cons
      split: option.splits config_outcome.splits)

lemma scan_body_completed_total:
  assumes "r \<in> set (completions (effects (scan_body e rootPath w)))"
  shows "\<exists>msg content. listDirectory e = ListResponse 200 msg content \<and>
           total r = length (filter is_dir content)"
  using assms
  by (auto simp: scan_body_def Let_def save_and_complete_completions scan_folders_completions
      completions_Cons split: sum.splits list_outcome.splits if_splits)

lemma performScan_completions:
  "completions (effects (performScan e rootPath w)) = completions (effects (scan_body e rootPath w))"
  by (simp add: performScan_def Let_def completions_Cons split: option.splits)

section \<open>The run after a successful listing\<close>

lemma scan_body_listed:
  assumes "read_existing e rootPath w = Inr prior"
    and "listDirectory e = ListResponse 200 msg content"
  shows "scan_body e rootPath w =
           save_and_complete e rootPath w (length (filter is_dir content))
             (loop_result e prior content)"
  using assms by (simp add: scan_body_def loop_result_def Let_def)

lemma loop_result_entries:
  "fmlookup (entries (loop_result e prior content)) n =
     (if n \<in> folder_names content \<and> \<not> truthy_member (initial_entries prior) n
      then Some (written_entry e n) else fmlookup (initial_entries prior) n)"
  by (simp add: loop_result_def scan_folders_entries folder_names_def)

lemma loop_result_errorCount:
  "errorCount (loop_result e prior content) =
     card {n \<in> folder_names content.
             \<not> truthy_member (initial_entries prior) n \<and> matched (searchTMDB e n) = None}"
  by (simp add: loop_result_def scan_folders_errorCount folder_names_def)



lemma loop_result_completions: "completions (calls (loop_result e prior content)) = []"
  by (simp add: loop_result_def scan_folders_completions completions_Cons)



lemma save_and_complete_thrown:
  "thrown (save_and_complete e rootPath w len s) = None \<longleftrightarrow>
     setGlobalValue_throws e = None \<and> getConfig e = ConfigOk \<and> saveAdminConfig_throws e = None"
  by (simp add: save_and_complete_def Let_def split: option.splits config_outcome.splits)

lemma save_and_complete_written:
  assumes "setGlobalValue_throws e = None"
  shows "store (final (save_and_complete e rootPath w len s)) =
           Some (Doc \<lparr>folders = Some (entries s), last_refresh = now_refresh e\<rparr>)"
    and "cache (final (save_and_complete e rootPath w len s)) rootPath =
           Some \<lparr>folders = Some (entries s), last_refresh = now_refresh e\<rparr>"
    and "SetGlobalValue \<lparr>folders = Some (entries s), last_refresh = now_refresh e\<rparr>
           \<in> set (effects (save_and_complete e rootPath w len s))"
  using assms
  by (simp_all add: save_and_complete_def Let_def split: option.splits config_outcome.splits)


lemma performScan_final: "final (performScan e rootPath w) = final (scan_body e rootPath w)"
  by (simp add: performScan_def Let_def split: option.splits)

lemma performScan_thrown: "thrown (performScan e rootPath w) = thrown (scan_body e rootPath w)"
  by (simp add: performScan_def Let_def split: option.splits)





section \<open>Evaluating the scenarios\<close>

lemmas run_defs = performScan_def scan_body_def read_existing_def save_and_complete_def
  initial_entries_def search_folder_def truthy_member_def object_prototype_keys_def
  key_count_def Let_def

lemmas scenario_defs = scenario_env_def empty_world_def inception_def

lemma not_prototype_key:
  "''Inception (2010)'' \<notin> set object_prototype_keys"
  "''Unknown Junk Folder'' \<notin> set object_prototype_keys"
  by (simp_all add: object_prototype_keys_def)


section \<open>The detail route: the two branches\<close>

lemma to_detail_without_entry:
  "d_id (to_detail e None d) = od_folder d"
  "d_title (to_detail e None d) = od_folder d"
  "d_poster (to_detail e None d) = []"
  "d_year (to_detail e None d) = []"
  "d_desc (to_detail e None d) = []"
  by (simp_all add: to_detail_def js_or_def)

lemma openlist_branch_status:
  "status (fst (openlist_branch e i w)) = 200 \<or> status (fst (openlist_branch e i w)) = 500"
  by (simp add: openlist_branch_def json_def Let_def
      split: sum.splits option.splits prod.splits fetch_outcome.splits)

lemma api_branch_invalid_id:
  "api_branch e user sourceCode i = json 400 (ErrorBody InvalidIdFormat) \<longleftrightarrow> \<not> valid_id i"
  by (auto simp: api_branch_def json_def split: sum.splits option.splits)

section \<open>The end-to-end scenario and repeated scans\<close>

text \<open>
  C1, as stated: in the end-to-end scenario the task is completed with the result
  \<open>{total: 2, new: 1, existing: 0, errors: 1}\<close>. The run of the scenario never passes that
  result to \<open>completeScanTask\<close>.
\<close>

theorem scenario_existing_count:
  "CompleteScanTask \<lparr>total = 2, new = 1, existing = 0, errors = 1\<rparr> \<notin> set (effects first_run)"
  by (simp add: first_run_def run_defs scenario_defs fcard_finsert_if)

text \<open>
  C1, amended. On a root without prior metadata whose listing has exactly the folders
  \<open>Inception (2010)\<close> and \<open>Unknown Junk Folder\<close>, where the catalog matches the first
  (id 27205, the given title, media type movie) and has no match for the second, and where
  the store and the configuration can be written, the stored and cached document maps the
  first folder to an entry with that id and title and \<open>failed = false\<close>, the second to a
  sentinel with id 0, the folder name as title and \<open>failed = true\<close>, and the task is
  completed with \<open>{total: 2, new: 1, existing: 1, errors: 1}\<close>: \<open>existing\<close> is the number
  of keys of the document minus \<open>new\<close>, and the sentinel is one of the keys.
\<close>

theorem end_to_end_scenario:
  assumes "cache w rootPath = None" and "store w = None"
    and "listDirectory e = ListResponse 200 msg content"
    and "map name (filter is_dir content) = [''Inception (2010)'', ''Unknown Junk Folder'']"
    and "searchTMDB e ''Inception (2010)'' = SearchResponse 200 (Some r)"
    and "r_id r = 27205" and "r_title r = Some inception_title" and "r_media_type r = ''movie''"
    and "searchTMDB e ''Unknown Junk Folder'' = SearchResponse code None"
    and "setGlobalValue_throws e = None" and "getConfig e = ConfigOk"
    and "saveAdminConfig_throws e = None"
  shows "\<exists>doc a b.
           store (final (performScan e rootPath w)) = Some (Doc doc) \<and>
           cache (final (performScan e rootPath w)) rootPath = Some doc \<and>
           folder_meta (Some doc) ''Inception (2010)'' = Some a \<and>
           tmdb_id a = 27205 \<and> title a = inception_title \<and> media_type a = ''movie'' \<and>
           \<not> failed a \<and>
           folder_meta (Some doc) ''Unknown Junk Folder'' = Some b \<and>
           tmdb_id b = 0 \<and> title b = ''Unknown Junk Folder'' \<and> failed b \<and>
           thrown (performScan e rootPath w) = None \<and>
           last (effects (performScan e rootPath w)) =
             CompleteScanTask \<lparr>total = 2, new = 1, existing = 1, errors = 1\<rparr>"
proof -
  from assms(4) obtain f1 f2 where fs: "filter is_dir content = [f1, f2]"
    and n1: "name f1 = ''Inception (2010)''" and n2: "name f2 = ''Unknown Junk Folder''"
    by auto
  define a where "a = resolved_entry r ''Inception (2010)'' (now_entry e ''Inception (2010)'')"
  define b where "b = sentinel_entry ''Unknown Junk Folder'' (now_entry e ''Unknown Junk Folder'')"
  define s0 where "s0 = \<lparr>entries = fmempty, newCount = 0, errorCount = 0,
                          calls = [UpdateScanTaskProgress 0 2 None]\<rparr>"
  define s2 where "s2 = scan_folders e 2 0 [f1, f2] s0"
  have ne: "''Inception (2010)'' \<noteq> ''Unknown Junk Folder''" by simp
  have ent: "entries s2 = fmupd ''Unknown Junk Folder'' b (fmupd ''Inception (2010)'' a fmempty)"
    and cnt: "newCount s2 = 1" "errorCount s2 = 1"
    using assms(5,9) ne
    by (simp_all add: s2_def s0_def n1 n2 Let_def truthy_member_def not_prototype_key
        search_folder_def a_def b_def del: list.inject)
  have keys: "key_count (entries s2) = 2"
    using ne by (simp add: ent key_count_def fcard_finsert_if del: list.inject)
  have body: "scan_body e rootPath w = save_and_complete e rootPath w 2 s2"
    using assms(1-3) by (simp add: scan_body_def read_existing_def fs initial_entries_def
        s2_def s0_def numeral_2_eq_2)
  define doc where "doc = \<lparr>folders = Some (entries s2), last_refresh = now_refresh e\<rparr>"
  have sc: "thrown (save_and_complete e rootPath w 2 s2) = None"
    "store (final (save_and_complete e rootPath w 2 s2)) = Some (Doc doc)"
    "cache (final (save_and_complete e rootPath w 2 s2)) rootPath = Some doc"
    "last (effects (save_and_complete e rootPath w 2 s2)) =
       CompleteScanTask \<lparr>total = 2, new = 1, existing = 1, errors = 1\<rparr>"
    using assms(10-12) by (simp_all add: save_and_complete_def Let_def doc_def keys cnt)
  have ps: "performScan e rootPath w =
      (save_and_complete e rootPath w 2 s2)
        \<lparr>effects := UpdateScanTaskProgress 0 0 None # effects (save_and_complete e rootPath w 2 s2)\<rparr>"
    by (simp add: performScan_def body sc Let_def)
  have nonempty: "effects (save_and_complete e rootPath w 2 s2) \<noteq> []"
    using assms(10-12) by (simp add: save_and_complete_def Let_def)
  have t: "inception_title \<noteq> []" by (simp add: inception_title_def)
  have fa: "folder_meta (Some doc) ''Inception (2010)'' = Some a"
    and fb: "folder_meta (Some doc) ''Unknown Junk Folder'' = Some b"
    using ne by (simp_all add: folder_meta_def doc_def ent del: list.inject)
  have pa: "tmdb_id a = 27205" "title a = inception_title" "media_type a = ''movie''" "\<not> failed a"
    using assms(6-8) t by (simp_all add: a_def resolved_entry_def js_or_def)
  have pb: "tmdb_id b = 0" "title b = ''Unknown Junk Folder''" "failed b"
    by (simp_all add: b_def sentinel_entry_def)
  show ?thesis
    unfolding ps using sc fa fb pa pb nonempty by (intro exI [of _ doc] exI [of _ a] exI [of _ b]) simp
qed

text \<open>
  The scenario itself.
\<close>

theorem end_to_end_witness:
  "\<exists>doc a b.
     store (final (performScan scenario_env ''/'' empty_world)) = Some (Doc doc) \<and>
     cache (final (performScan scenario_env ''/'' empty_world)) ''/'' = Some doc \<and>
     folder_meta (Some doc) ''Inception (2010)'' = Some a \<and>
     tmdb_id a = 27205 \<and> title a = inception_title \<and> media_type a = ''movie'' \<and>
     \<not> failed a \<and>
     folder_meta (Some doc) ''Unknown Junk Folder'' = Some b \<and>
     tmdb_id b = 0 \<and> title b = ''Unknown Junk Folder'' \<and> failed b \<and>
     thrown (performScan scenario_env ''/'' empty_world) = None \<and>
     last (effects (performScan scenario_env ''/'' empty_world)) =
       CompleteScanTask \<lparr>total = 2, new = 1, existing = 1, errors = 1\<rparr>"
  using end_to_end_scenario [of empty_world "''/''" scenario_env "''success''"
      "[\<lparr>name = ''Inception (2010)'', is_dir = True\<rparr>,
        \<lparr>name = ''Unknown Junk Folder'', is_dir = True\<rparr>]" inception 404]
  by (simp add: scenario_defs)




section \<open>Failed lookups\<close>

text \<open>
  C3, as stated: every listed folder has an entry after the scan, and the sentinel of the
  failed folder has all fields other than \<open>title\<close> and \<open>failed\<close> zeroed or empty. In a
  completed scan of the folders \<open>constructor\<close> and \<open>Junk\<close>, where only the lookup of
  \<open>Junk\<close> fails, \<open>constructor\<close> has no entry, and the sentinel of \<open>Junk\<close> has the media
  type \<open>movie\<close> and the time of the write as \<open>last_updated\<close>.
\<close>

theorem isolation_counterexample:
  "thrown isolation_run = None \<and>
   folder_meta (cache (final isolation_run) ''/'') ''constructor'' = None \<and>
   map_option media_type (folder_meta (cache (final isolation_run) ''/'') ''Junk'') = Some ''movie'' \<and>
   map_option last_updated (folder_meta (cache (final isolation_run) ''/'') ''Junk'') = Some 1001"
  by (simp add: isolation_run_def isolation_env_def run_defs scenario_defs folder_meta_def
      sentinel_entry_def)

text \<open>
  C3, amended. In a scan whose listing succeeds with N folders, none of them named like a
  member of \<open>Object.prototype\<close>, where exactly one folder \<open>f\<close> without an entry has a
  failing lookup (no match, or the call throws) and where the store and the configuration
  can be written: the scan completes with \<open>total = N\<close> and \<open>errors = 1\<close>, every listed
  folder has an entry in the stored and cached document, and the entry of \<open>f\<close> is the
  sentinel with \<open>failed = true\<close>, the folder name as title, id 0, no poster, empty release
  date and overview, rating 0, the media type \<open>movie\<close> and \<open>last_updated\<close> the time of the
  write.
\<close>

theorem per_folder_isolation:
  assumes "read_existing e rootPath w = Inr prior"
    and "listDirectory e = ListResponse 200 msg content"
    and "folder_names content \<inter> set object_prototype_keys = {}"
    and "{n \<in> folder_names content.
            fmlookup (initial_entries prior) n = None \<and> matched (searchTMDB e n) = None} = {f}"
    and "setGlobalValue_throws e = None" and "getConfig e = ConfigOk"
    and "saveAdminConfig_throws e = None"
  shows "thrown (performScan e rootPath w) = None \<and>
         (\<exists>r. completions (effects (performScan e rootPath w)) = [r] \<and>
               total r = length (filter is_dir content) \<and> errors r = 1) \<and>
         (\<exists>doc. store (final (performScan e rootPath w)) = Some (Doc doc) \<and>
                 cache (final (performScan e rootPath w)) rootPath = Some doc \<and>
                 (\<forall>n \<in> folder_names content. folder_meta (Some doc) n \<noteq> None) \<and>
                 folder_meta (Some doc) f =
                   Some \<lparr>tmdb_id = 0, title = f, poster_path = None, release_date = [],
                         overview = [], vote_average = 0, media_type = ''movie'',
                         last_updated = now_entry e f, failed = True\<rparr>)"
proof -
  define len where "len = length (filter is_dir content)"
  define s where "s = loop_result e prior content"
  define doc where "doc = \<lparr>folders = Some (entries s), last_refresh = now_refresh e\<rparr>"
  have b: "scan_body e rootPath w = save_and_complete e rootPath w len s"
    by (simp add: scan_body_listed [OF assms(1,2)] len_def s_def)
  have ok: "thrown (scan_body e rootPath w) = None"
    using assms(5-7) by (simp add: b save_and_complete_thrown)
  have same: "{n \<in> folder_names content.
            \<not> truthy_member (initial_entries prior) n \<and> matched (searchTMDB e n) = None} = {f}"
    using assms(3,4) by (auto simp: truthy_member_def)
  have err: "errorCount s = 1"
    by (simp only: s_def loop_result_errorCount same) simp
  have comp: "completions (effects (performScan e rootPath w)) =
                [\<lparr>total = len, new = newCount s,
                  existing = int (key_count (entries s)) - int (newCount s), errors = errorCount s\<rparr>]"
    using ok by (simp add: performScan_completions b save_and_complete_completions s_def
        loop_result_completions)
  have w: "store (final (performScan e rootPath w)) = Some (Doc doc)"
    "cache (final (performScan e rootPath w)) rootPath = Some doc"
    using save_and_complete_written(1,2) [OF assms(5), where rootPath = rootPath and w = w
        and len = len and s = s]
    by (simp_all add: performScan_final b doc_def)
  have all: "\<forall>n \<in> folder_names content. folder_meta (Some doc) n \<noteq> None"
    using assms(3) by (auto simp: folder_meta_def doc_def s_def loop_result_entries truthy_member_def)
  from assms(4) have f: "f \<in> folder_names content" "fmlookup (initial_entries prior) f = None"
    "matched (searchTMDB e f) = None" by auto
  with assms(3) have "\<not> truthy_member (initial_entries prior) f"
    by (auto simp: truthy_member_def)
  with f have sent: "folder_meta (Some doc) f = Some (sentinel_entry f (now_entry e f))"
    by (simp add: folder_meta_def doc_def s_def loop_result_entries written_entry_def)
  show ?thesis
    using ok comp err w all sent
    by (simp add: performScan_thrown len_def sentinel_entry_def)
qed

text \<open>
  The end-to-end scenario has exactly one failing folder.
\<close>

theorem isolation_witness:
  "thrown first_run = None \<and>
   (\<exists>r. completions (effects first_run) = [r] \<and> total r = 2 \<and> errors r = 1) \<and>
   (\<exists>doc. store (final first_run) = Some (Doc doc) \<and>
           cache (final first_run) ''/'' = Some doc \<and>
           folder_meta (Some doc) ''Inception (2010)'' \<noteq> None \<and>
           folder_meta (Some doc) ''Unknown Junk Folder'' =
             Some \<lparr>tmdb_id = 0, title = ''Unknown Junk Folder'', poster_path = None,
                   release_date = [], overview = [], vote_average = 0, media_type = ''movie'',
                   last_updated = 1001, failed = True\<rparr>)"
proof -
  have names: "folder_names [\<lparr>name = ''Inception (2010)'', is_dir = True\<rparr>,
        \<lparr>name = ''Unknown Junk Folder'', is_dir = True\<rparr>] =
      {''Inception (2010)'', ''Unknown Junk Folder''}"
    by (simp add: folder_names_def)
  have 1: "read_existing scenario_env ''/'' empty_world = Inr None"
    by (simp add: read_existing_def scenario_defs)
  have 2: "{''Inception (2010)'', ''Unknown Junk Folder''} \<inter> set object_prototype_keys = {}"
    by (simp add: object_prototype_keys_def)
  have 3: "{n \<in> {''Inception (2010)'', ''Unknown Junk Folder''}.
            fmlookup (initial_entries None) n = None \<and>
            matched (searchTMDB scenario_env n) = None} = {''Unknown Junk Folder''}"
    by (auto simp: initial_entries_def scenario_defs)
  have 4: "listDirectory scenario_env = ListResponse 200 ''success''
      [\<lparr>name = ''Inception (2010)'', is_dir = True\<rparr>,
       \<lparr>name = ''Unknown Junk Folder'', is_dir = True\<rparr>]"
    "setGlobalValue_throws scenario_env = None" "getConfig scenario_env = ConfigOk"
    "saveAdminConfig_throws scenario_env = None"
    by (simp_all add: scenario_env_def)
  have 5: "now_entry scenario_env ''Unknown Junk Folder'' = 1001"
    by (simp add: scenario_env_def)
  from per_folder_isolation [of scenario_env "''/''" empty_world None "''success''"
      "[\<lparr>name = ''Inception (2010)'', is_dir = True\<rparr>,
        \<lparr>name = ''Unknown Junk Folder'', is_dir = True\<rparr>]" "''Unknown Junk Folder''",
      unfolded names, OF 1 4(1) 2 3 4(2-4)]
  show ?thesis
    unfolding first_run_def by (auto simp: 5)
qed

text \<open>
  C4. The 300 ms delay is to follow every lookup attempt of a folder that was not skipped,
  a failed one too. In the completed scan of one new folder for which \<open>searchTMDB\<close> throws,
  the lookup is made and the sentinel is written, but the timer is never awaited: the delay
  is missing after a lookup that throws.
\<close>

theorem no_delay_after_thrown_lookup:
  "thrown throwing_run = None \<and> searched (effects throwing_run) = [''A''] \<and>
   Sleep 300 \<notin> set (effects throwing_run) \<and>
   map_option failed (folder_meta (cache (final throwing_run) ''/'') ''A'') = Some True"
  by (simp add: throwing_run_def throwing_env_def run_defs scenario_defs folder_meta_def
      sentinel_entry_def searched_def)

section \<open>Progress reports\<close>

text \<open>
  C5. The \<open>processed\<close> values passed to \<open>updateScanTaskProgress\<close> during a run never
  decrease, and whenever the run calls \<open>completeScanTask\<close>, the last \<open>processed\<close> value
  reported is the \<open>total\<close> of the result, which is the number of folders listed.
\<close>

theorem progress_nondecreasing_reaches_total:
  "sorted (processed_values (effects (performScan e rootPath w))) \<and>
   (\<forall>r. CompleteScanTask r \<in> set (effects (performScan e rootPath w)) \<longrightarrow>
      last (processed_values (effects (performScan e rootPath w))) = total r \<and>
      (\<exists>msg content. listDirectory e = ListResponse 200 msg content \<and>
         total r = length (filter is_dir content)))"
proof (intro conjI allI impI)
  show "sorted (processed_values (effects (performScan e rootPath w)))"
    by (simp add: performScan_processed scan_body_processed sorted_upt
        split: sum.splits list_outcome.splits del: upt_Suc)
next
  fix r
  assume "CompleteScanTask r \<in> set (effects (performScan e rootPath w))"
  then have r: "r \<in> set (completions (effects (scan_body e rootPath w)))"
    by (simp add: CompleteScanTask_in_set performScan_completions)
  from scan_body_completed_total [OF r]
  obtain msg content where c: "listDirectory e = ListResponse 200 msg content"
    "total r = length (filter is_dir content)" by blast
  from r obtain prior where p: "read_existing e rootPath w = Inr prior"
    by (cases "read_existing e rootPath w") (auto simp: scan_body_def)
  show "\<exists>msg content. listDirectory e = ListResponse 200 msg content \<and>
         total r = length (filter is_dir content)" using c by blast
  show "last (processed_values (effects (performScan e rootPath w))) = total r"
    using c p by (simp add: performScan_processed scan_body_processed del: upt_Suc)
qed

text \<open>The end-to-end scenario completes after the reports 0, 0, 1, 2.\<close>

theorem progress_witness:
  "sorted (processed_values (effects first_run)) \<and>
   CompleteScanTask \<lparr>total = 2, new = 1, existing = 1, errors = 1\<rparr> \<in> set (effects first_run) \<and>
   last (processed_values (effects first_run)) = 2"
proof -
  have c: "CompleteScanTask \<lparr>total = 2, new = 1, existing = 1, errors = 1\<rparr> \<in> set (effects first_run)"
    by (simp add: first_run_def performScan_def scan_body_def read_existing_def empty_world_def
        scenario_env_def save_and_complete_def initial_entries_def search_folder_def
        truthy_member_def object_prototype_keys_def key_count_def Let_def fcard_finsert_if)
  from progress_nondecreasing_reaches_total [of scenario_env "''/''" empty_world] c
  show ?thesis by (simp add: first_run_def)
qed

text \<open>
  C6, as stated: the \<open>processed\<close> values of a run are strictly increasing. The run of the
  end-to-end scenario reports 0 before the listing and 0 again with the folder count.
\<close>

theorem repeated_progress_value:
  "\<not> sorted_wrt (<) (processed_values (effects first_run))"
  by (simp add: first_run_def performScan_def scan_body_def read_existing_def empty_world_def
        scenario_env_def save_and_complete_def initial_entries_def search_folder_def
        truthy_member_def object_prototype_keys_def key_count_def Let_def processed_values_def)

text \<open>
  C6, amended. After the first progress update of a run (the update \<open>(0, 0)\<close> made before
  the listing), the \<open>processed\<close> values are strictly increasing: only the first two updates
  of a run report the same value.
\<close>

theorem progress_strict_after_first:
  "sorted_wrt (<) (tl (processed_values (effects (performScan e rootPath w))))"
  by (simp add: performScan_processed scan_body_processed
      split: sum.splits list_outcome.splits del: upt_Suc)

section \<open>Failures of a run\<close>

text \<open>
  C7, as stated: on a listing status other than 200 the task fails with the gateway's error
  message. The gateway answers 500 with the message \<open>storage not found\<close>; the run never
  passes that message to \<open>failScanTask\<close>, its last call passes the fixed text of the error
  that the scan throws.
\<close>

theorem listing_failure_message:
  "listDirectory listing_failure_env = ListResponse 500 ''storage not found'' [] \<and>
   FailScanTask (Error ''storage not found'')
     \<notin> set (effects (performScan listing_failure_env ''/'' empty_world)) \<and>
   last (effects (performScan listing_failure_env ''/'' empty_world)) =
     FailScanTask (Error list_fetch_failed)"
  by (simp add: listing_failure_env_def run_defs scenario_defs list_fetch_failed_def)

text \<open>
  C7, amended. When the listing is reached and answers with a status other than 200, whatever
  message the answer carries, the run ends with the error that the scan itself throws: the
  only calls are the first progress update and \<open>failScanTask\<close> with the fixed text of that
  error, the error is thrown again, and the store, the cache and the configuration are what
  they were (there is no \<open>setGlobalValue\<close> call).
\<close>

theorem listing_failure_is_fatal:
  assumes "listDirectory e = ListResponse code msg content" and "code \<noteq> 200"
    and "\<forall>m. cache w rootPath = Some m \<longrightarrow> folders m \<noteq> None"
  shows "performScan e rootPath w =
           \<lparr>final = w,
            effects = [UpdateScanTaskProgress 0 0 None, FailScanTask (Error list_fetch_failed)],
            thrown = Some (Error list_fetch_failed)\<rparr>"
  using assms
  by (auto simp: performScan_def scan_body_def read_existing_def Let_def
      split: option.splits db_value.splits)

text \<open>A listing that answers 500 with a message, on an empty store.\<close>

theorem listing_failure_witness:
  "performScan listing_failure_env ''/'' empty_world =
     \<lparr>final = empty_world,
      effects = [UpdateScanTaskProgress 0 0 None, FailScanTask (Error list_fetch_failed)],
      thrown = Some (Error list_fetch_failed)\<rparr>"
  using listing_failure_is_fatal [of listing_failure_env 500 "''storage not found''" "[]"
      empty_world "''/''"]
  by (simp add: listing_failure_env_def scenario_env_def empty_world_def)



section \<open>The detail route\<close>

text \<open>
  C8. An authenticated detail request for the source \<open>openlist\<close>, with OpenList
  configured and an answer from \<open>/api/openlist/detail\<close>, whose folder has no entry in the
  cached or stored document (no document, no \<open>folders\<close>, or no such key) is answered with
  status 200 and a detail record whose title is the folder of the answer, like its id, and
  whose poster, year and description are empty.
\<close>

theorem detail_without_metadata:
  assumes "username request = Some user" and "user \<noteq> []"
    and "id_param request = Some i" and "i \<noteq> []"
    and "source_param request = Some ''openlist''"
    and "d_getConfig e = Inr (Some c)" and "\<not> falsy (URL c)" and "\<not> falsy (Token c)"
    and "fetch_openlist_detail e i = FetchJson d" and "od_success d"
    and "folder_meta (fst (read_metainfo e (js_or (RootPath c) ''/'') w)) i = None"
  shows "\<exists>r. fst (GET e request w) = json 200 (DetailBody r) \<and>
              d_id r = od_folder d \<and> d_title r = od_folder d \<and>
              d_poster r = [] \<and> d_year r = [] \<and> d_desc r = []"
proof -
  have "fst (GET e request w) = json 200 (DetailBody (to_detail e None d))"
    using assms
    by (auto simp: GET_def openlist_branch_def Let_def split: prod.splits)
  then show ?thesis
    by (intro exI [of _ "to_detail e None d"]) (simp add: to_detail_without_entry)
qed

text \<open>
  A request for a folder on an empty cache and store.
\<close>

theorem detail_without_metadata_witness:
  "\<exists>r. fst (GET detail_scenario detail_request empty_world) = json 200 (DetailBody r) \<and>
       d_id r = ''My Show/S 1'' \<and> d_title r = ''My Show/S 1'' \<and>
       d_poster r = [] \<and> d_year r = [] \<and> d_desc r = []"
  using detail_without_metadata [of detail_request "''alice''" "''My Show/S 1''" detail_scenario
      "\<lparr>URL = Some ''http://files'', Token = Some ''t'', RootPath = None\<rparr>"
      "\<lparr>od_success = True, od_error = None, od_folder = ''My Show/S 1'',
        od_episodes = [\<lparr>fileName = ''e 1.mkv'', ep_title = None, ep_number = 12\<rparr>]\<rparr>"
      empty_world]
  by (simp add: detail_request_def detail_scenario_def empty_world_def falsy_def js_or_def
      read_metainfo_def folder_meta_def)

text \<open>
  C10. An authenticated request with a non-empty id and the source \<open>openlist\<close> is
  answered by the OpenList branch whatever the id is, with status 200 or 500; and a
  response 400 with the invalid-id error implies that the source is not \<open>openlist\<close> and that
  the id fails the test \<open>/^[\w-]+$/\<close>.
\<close>

theorem openlist_skips_id_validation:
  "(username request = Some user \<and> user \<noteq> [] \<and> id_param request = Some i \<and> i \<noteq> [] \<and>
    source_param request = Some ''openlist'' \<longrightarrow>
      GET e request w = openlist_branch e i w \<and>
      (status (fst (GET e request w)) = 200 \<or> status (fst (GET e request w)) = 500)) \<and>
   (fst (GET e request w) = json 400 (ErrorBody InvalidIdFormat) \<longrightarrow>
      (\<exists>j sourceCode. id_param request = Some j \<and> \<not> valid_id j \<and>
         source_param request = Some sourceCode \<and> sourceCode \<noteq> ''openlist''))"
proof (intro conjI impI)
  assume a: "username request = Some user \<and> user \<noteq> [] \<and> id_param request = Some i \<and> i \<noteq> [] \<and>
    source_param request = Some ''openlist''"
  then show g: "GET e request w = openlist_branch e i w" by (simp add: GET_def)
  show "status (fst (GET e request w)) = 200 \<or> status (fst (GET e request w)) = 500"
    unfolding g by (rule openlist_branch_status)
next
  assume r: "fst (GET e request w) = json 400 (ErrorBody InvalidIdFormat)"
  show "\<exists>j sourceCode. id_param request = Some j \<and> \<not> valid_id j \<and>
         source_param request = Some sourceCode \<and> sourceCode \<noteq> ''openlist''"
  proof (cases "username request")
    case None
    with r show ?thesis by (simp add: GET_def json_def)
  next
    case (Some u)
    show ?thesis
    proof (cases "id_param request")
      case None
      with r Some show ?thesis by (simp add: GET_def json_def split: if_splits)
    next
      case i: (Some j)
      show ?thesis
      proof (cases "source_param request")
        case None
        with r Some i show ?thesis by (simp add: GET_def json_def split: if_splits)
      next
        case s: (Some sourceCode)
        show ?thesis
        proof (cases "sourceCode = ''openlist''")
          case True
          with r Some i s have "fst (openlist_branch e j w) = json 400 (ErrorBody InvalidIdFormat)"
            by (simp add: GET_def json_def split: if_splits)
          with openlist_branch_status [of e j w] show ?thesis by (simp add: json_def)
        next
          case False
          with r Some i s have "api_branch e u sourceCode j = json 400 (ErrorBody InvalidIdFormat)"
            by (simp add: GET_def json_def split: if_splits)
          then have "\<not> valid_id j" by (simp add: api_branch_invalid_id)
          with False i s show ?thesis by simp
        qed
      qed
    qed
  qed
qed

text \<open>
  An id with a space and a slash reaches the OpenList branch; with another source the same
  id is refused.
\<close>

theorem openlist_skips_id_validation_witness:
  "\<not> valid_id ''My Show/S 1'' \<and>
   GET detail_scenario detail_request empty_world =
     openlist_branch detail_scenario ''My Show/S 1'' empty_world \<and>
   status (fst (GET detail_scenario detail_request empty_world)) = 200 \<and>
   fst (GET detail_scenario (detail_request\<lparr>source_param := Some ''site1''\<rparr>) empty_world) =
     json 400 (ErrorBody InvalidIdFormat)"
proof -
  have v: "\<not> valid_id ''My Show/S 1''" by (simp add: valid_id_def alphanumeric_def)
  have s: "fst (GET detail_scenario (detail_request\<lparr>source_param := Some ''site1''\<rparr>) empty_world) =
     json 400 (ErrorBody InvalidIdFormat)"
    using v by (simp add: GET_def detail_request_def api_branch_def)
  have o: "status (fst (openlist_branch detail_scenario ''My Show/S 1'' empty_world)) = 200"
    by (simp add: openlist_branch_def detail_scenario_def falsy_def json_def Let_def
        split: prod.splits)
  from openlist_skips_id_validation [of detail_request "''alice''" "''My Show/S 1''"
      detail_scenario empty_world]
  have "GET detail_scenario detail_request empty_world =
     openlist_branch detail_scenario ''My Show/S 1'' empty_world"
    by (simp add: detail_request_def)
  with v s o show ?thesis by simp
qed

end
